theory Spec2Isabelle
  imports Main "HOL-Library.Word"
begin

unbundle bit_operations_syntax

section \<open>The native entry point of container_native.cpp\<close>

subsection \<open>Types\<close>

text \<open>
  The C type \<open>int\<close> is 32 bits wide on every ABI the JNI library is built for, and
  \<open>jni.h\<close> declares \<open>jint\<close> as \<open>int32_t\<close>: both are the same 32-bit two's complement
  type, read as a signed value with \<open>sint\<close>. The two parameters are pointers that the
  body never dereferences; they are kept as addresses.
\<close>

type_synonym c_int = "32 word"
type_synonym jint = "32 word"
type_synonym JNIEnv_ptr = nat
type_synonym jclass = nat

subsection \<open>The namespace flags of \<open>sched.h\<close>\<close>

text \<open>
  The three macros of line 8 are declared by the system header \<open>sched.h\<close>, which is
  not part of the source tree. Each is an \<open>int\<close> literal with a single bit set, so the
  \<open>|\<close> of line 8 is computed on \<open>int\<close>.
\<close>

text \<open>
  Modelled from the spec: the macro \<open>CLONE_NEWNS\<close> of \<open>sched.h\<close> (mount namespace),
  with its value in the Linux kernel interface.
\<close>

definition CLONE_NEWNS :: c_int where
  "CLONE_NEWNS = 0x00020000"

text \<open>
  Modelled from the spec: the macro \<open>CLONE_NEWUTS\<close> of \<open>sched.h\<close> (UTS namespace),
  with its value in the Linux kernel interface.
\<close>

definition CLONE_NEWUTS :: c_int where
  "CLONE_NEWUTS = 0x04000000"

text \<open>
  Modelled from the spec: the macro \<open>CLONE_NEWPID\<close> of \<open>sched.h\<close> (PID namespace),
  with its value in the Linux kernel interface.
\<close>

definition CLONE_NEWPID :: c_int where
  "CLONE_NEWPID = 0x20000000"

subsection \<open>Ambient state\<close>

text \<open>
  What a process-creating or namespace-creating call would change: the namespaces of
  the calling process, the process table (process id and the namespaces the process
  lives in), the host name and the mount table seen by the caller, and the log of
  the system calls issued so far (newest last).
\<close>

datatype syscall =
    Sys_clone c_int
  | Sys_fork
  | Sys_unshare c_int
  | Sys_setns nat c_int
  | Sys_sethostname string
  | Sys_mount string
  | Sys_execve string
  | Sys_waitpid nat

record ns_ids =
  uts_ns :: nat
  pid_ns :: nat
  mnt_ns :: nat

record os_state =
  caller_ns :: ns_ids
  proc_table :: "(nat \<times> ns_ids) list"
  hostname :: string
  mounts :: "string list"
  syscalls :: "syscall list"

subsection \<open>The function\<close>

text \<open>
  \<^verbatim>\<open>int flags = CLONE_NEWUTS | CLONE_NEWPID | CLONE_NEWNS; return flags;\<close>
  The body declares one local variable and returns it. It calls nothing, so the
  ambient state is handed back as it came in.
\<close>

definition Java_com_toycontainer_Container_createNamespacedProcess ::
  "JNIEnv_ptr \<Rightarrow> jclass \<Rightarrow> os_state \<Rightarrow> jint \<times> os_state" where
  "Java_com_toycontainer_Container_createNamespacedProcess env clazz s =
     (let flags = CLONE_NEWUTS OR CLONE_NEWPID OR CLONE_NEWNS
      in (flags, s))"

text \<open>
  \<open>or_flags\<close> is not a function of the source, which combines flags in one place only,
  the expression of line 8. It is that expression for any number of operands, written
  here to state how flags combine: the operands are joined by the operator \<open>|\<close> of the
  source, and no operand gives \<open>0\<close>.
\<close>

fun or_flags :: "c_int list \<Rightarrow> c_int" where
  "or_flags [] = 0"
| "or_flags (f # fs) = f OR or_flags fs"

section \<open>Auxiliary facts\<close>

lemma bit_or_flags_iff:
  "bit (or_flags fs) n \<longleftrightarrow> (\<exists>f \<in> set fs. bit f n)"
  by (induction fs) (auto simp: bit_or_iff)

lemma or_flags_cong_set:
  assumes "set fs = set gs"
  shows "or_flags fs = or_flags gs"
  by (rule bit_eqI) (simp add: bit_or_flags_iff assms)

lemma or_flags_append:
  "or_flags (fs @ gs) = or_flags fs OR or_flags gs"
  by (induction fs) (simp_all add: ac_simps)

lemma flags_value:
  "CLONE_NEWUTS OR CLONE_NEWPID OR CLONE_NEWNS = (0x24020000 :: c_int)"
  by (simp add: CLONE_NEWUTS_def CLONE_NEWPID_def CLONE_NEWNS_def)

lemma bit_single_flag:
  "m < 32 \<Longrightarrow> bit (push_bit m (1 :: c_int)) n \<longleftrightarrow> n = m"
  by (auto simp add: bit_exp_iff)

lemma bit_CLONE_NEWNS: "bit CLONE_NEWNS n \<longleftrightarrow> n = 17"
  using bit_single_flag [of 17 n] by (simp add: CLONE_NEWNS_def)

lemma bit_CLONE_NEWUTS: "bit CLONE_NEWUTS n \<longleftrightarrow> n = 26"
  using bit_single_flag [of 26 n] by (simp add: CLONE_NEWUTS_def)

lemma bit_CLONE_NEWPID: "bit CLONE_NEWPID n \<longleftrightarrow> n = 29"
  using bit_single_flag [of 29 n] by (simp add: CLONE_NEWPID_def)

section \<open>The returned mask\<close>

text \<open>
  Claim C1. Every call returns the bitwise union of the three flags for UTS, PID and
  mount isolation, and nothing else: bit \<open>n\<close> of the result is set exactly when it is
  set in one of the three constants, that is, exactly for bits 26, 29 and 17.
\<close>

theorem createNamespacedProcess_returns_three_flags:
  "fst (Java_com_toycontainer_Container_createNamespacedProcess env clazz s)
     = CLONE_NEWUTS OR CLONE_NEWPID OR CLONE_NEWNS
   \<and> (\<forall>n. bit (fst (Java_com_toycontainer_Container_createNamespacedProcess env clazz s)) n
          = (bit CLONE_NEWUTS n \<or> bit CLONE_NEWPID n \<or> bit CLONE_NEWNS n))
   \<and> (\<forall>n. bit (fst (Java_com_toycontainer_Container_createNamespacedProcess env clazz s)) n
          = (n = 26 \<or> n = 29 \<or> n = 17))"
  by (simp add: Java_com_toycontainer_Container_createNamespacedProcess_def bit_or_iff
      bit_CLONE_NEWNS bit_CLONE_NEWUTS bit_CLONE_NEWPID)

text \<open>
  Claim C9. The result does not depend on the arguments: any two calls, with any
  \<open>env\<close>, any \<open>clazz\<close> and in any ambient state, return the same value, and two calls
  in the same state agree on everything.
\<close>

theorem createNamespacedProcess_ignores_arguments:
  "fst (Java_com_toycontainer_Container_createNamespacedProcess env clazz s)
     = fst (Java_com_toycontainer_Container_createNamespacedProcess env' clazz' s')
   \<and> Java_com_toycontainer_Container_createNamespacedProcess env clazz s
     = Java_com_toycontainer_Container_createNamespacedProcess env' clazz' s"
  by (simp add: Java_com_toycontainer_Container_createNamespacedProcess_def)

text \<open>
  Claim C10, as stated, gives the returned value as \<open>0x24020000\<close> and, in decimal, as
  604241920. The two are different numbers: 604241920 is \<open>0x24040000\<close>. On a
  concrete call the signed value of the result is not 604241920.
\<close>

theorem createNamespacedProcess_decimal_value_counterexample:
  "sint (fst (Java_com_toycontainer_Container_createNamespacedProcess 0 0
           \<lparr>caller_ns = \<lparr>uts_ns = 0, pid_ns = 0, mnt_ns = 0\<rparr>,
            proc_table = [(1, \<lparr>uts_ns = 0, pid_ns = 0, mnt_ns = 0\<rparr>)],
            hostname = ''host'', mounts = [''/''], syscalls = []\<rparr>))
     \<noteq> 604241920"
  by (simp add: Java_com_toycontainer_Container_createNamespacedProcess_def flags_value)

text \<open>
  Claim C10, amended. The returned value is exactly \<open>0x24020000\<close>, which is 604110848:
  the union of \<open>0x04000000\<close>, \<open>0x20000000\<close> and \<open>0x00020000\<close> computed on unbounded
  integers. It is positive and below \<open>2 ^ 31\<close>, so the signed reading of the 32-bit
  result equals the unsigned one: no overflow and no change of sign.
\<close>

theorem createNamespacedProcess_value:
  "fst (Java_com_toycontainer_Container_createNamespacedProcess env clazz s) = 0x24020000
   \<and> sint (fst (Java_com_toycontainer_Container_createNamespacedProcess env clazz s)) = 604110848
   \<and> sint (fst (Java_com_toycontainer_Container_createNamespacedProcess env clazz s))
       = (0x04000000 OR 0x20000000 OR 0x00020000 :: int)
   \<and> sint (fst (Java_com_toycontainer_Container_createNamespacedProcess env clazz s))
       = uint (fst (Java_com_toycontainer_Container_createNamespacedProcess env clazz s))
   \<and> 0 < sint (fst (Java_com_toycontainer_Container_createNamespacedProcess env clazz s))
   \<and> sint (fst (Java_com_toycontainer_Container_createNamespacedProcess env clazz s)) < 2 ^ 31"
  by (simp add: Java_com_toycontainer_Container_createNamespacedProcess_def flags_value)

section \<open>Combining flags\<close>

text \<open>
  Claim C4. Flags combine by bitwise union. The combination of no flag is \<open>0\<close>, of one
  flag the flag itself, and of two requests together the bitwise OR of their masks;
  so a bit is set in a combination exactly when it is set in one of the flags
  combined. The combination does not depend on the order of the operands, and a flag
  requested twice counts once: two lists with the same elements combine to the same
  mask. For the program: the three flags of line 8, in any order and with any
  repetition, combine to the value the function returns.
\<close>

theorem namespace_flags_combine_by_union:
  "or_flags [] = 0
   \<and> or_flags [k] = k
   \<and> or_flags [k, k'] = k OR k'
   \<and> or_flags (ks @ ks') = or_flags ks OR or_flags ks'
   \<and> (\<forall>n. bit (or_flags ks) n = (\<exists>f. f \<in> set ks \<and> bit f n))
   \<and> or_flags (ks @ ks') = or_flags (ks' @ ks)
   \<and> or_flags (k # k # ks) = or_flags (k # ks)
   \<and> (set ks = set ks' \<longrightarrow> or_flags ks = or_flags ks')
   \<and> (set ks = {CLONE_NEWUTS, CLONE_NEWPID, CLONE_NEWNS} \<longrightarrow>
        or_flags ks
          = fst (Java_com_toycontainer_Container_createNamespacedProcess env clazz s))"
proof -
  have single: "or_flags [k] = k" and pair: "or_flags [k, k'] = k OR k'"
    by simp_all
  have app: "or_flags (ks @ ks') = or_flags ks OR or_flags ks'"
    by (rule or_flags_append)
  have bits: "\<forall>n. bit (or_flags ks) n = (\<exists>f. f \<in> set ks \<and> bit f n)"
    by (auto simp add: bit_or_flags_iff)
  have comm: "or_flags (ks @ ks') = or_flags (ks' @ ks)"
    by (rule or_flags_cong_set) auto
  have idem: "or_flags (k # k # ks) = or_flags (k # ks)"
    by (rule or_flags_cong_set) auto
  have cong: "set ks = set ks' \<longrightarrow> or_flags ks = or_flags ks'"
    by (rule impI) (rule or_flags_cong_set)
  have prog: "set ks = {CLONE_NEWUTS, CLONE_NEWPID, CLONE_NEWNS} \<longrightarrow>
      or_flags ks = fst (Java_com_toycontainer_Container_createNamespacedProcess env clazz s)"
  proof
    assume "set ks = {CLONE_NEWUTS, CLONE_NEWPID, CLONE_NEWNS}"
    then have "set ks = set [CLONE_NEWUTS, CLONE_NEWPID, CLONE_NEWNS]"
      by simp
    then have "or_flags ks = or_flags [CLONE_NEWUTS, CLONE_NEWPID, CLONE_NEWNS]"
      by (rule or_flags_cong_set)
    then show "or_flags ks = fst (Java_com_toycontainer_Container_createNamespacedProcess env clazz s)"
      by (simp add: Java_com_toycontainer_Container_createNamespacedProcess_def)
  qed
  from single pair app bits comm idem cong prog show ?thesis
    by (simp only: or_flags.simps simp_thms)
qed

text \<open>
  The three flags in another order than line 8 has them, with the PID flag requested
  twice: the same elements as the source's three, and the same mask as the function
  returns.
\<close>

theorem namespace_flags_combine_by_union_witness:
  "set [CLONE_NEWPID, CLONE_NEWNS, CLONE_NEWUTS, CLONE_NEWPID]
     = set [CLONE_NEWUTS, CLONE_NEWPID, CLONE_NEWNS]
   \<and> set [CLONE_NEWPID, CLONE_NEWNS, CLONE_NEWUTS, CLONE_NEWPID]
     = {CLONE_NEWUTS, CLONE_NEWPID, CLONE_NEWNS}
   \<and> or_flags [CLONE_NEWPID, CLONE_NEWNS, CLONE_NEWUTS, CLONE_NEWPID]
     = or_flags [CLONE_NEWUTS, CLONE_NEWPID, CLONE_NEWNS]
   \<and> or_flags [CLONE_NEWPID, CLONE_NEWNS, CLONE_NEWUTS, CLONE_NEWPID]
     = fst (Java_com_toycontainer_Container_createNamespacedProcess 0 0
           \<lparr>caller_ns = \<lparr>uts_ns = 0, pid_ns = 0, mnt_ns = 0\<rparr>,
            proc_table = [(1, \<lparr>uts_ns = 0, pid_ns = 0, mnt_ns = 0\<rparr>)],
            hostname = ''host'', mounts = [''/''], syscalls = []\<rparr>)
   \<and> or_flags [CLONE_NEWPID, CLONE_NEWNS, CLONE_NEWUTS, CLONE_NEWPID] = 0x24020000"
proof -
  have h1: "set [CLONE_NEWPID, CLONE_NEWNS, CLONE_NEWUTS, CLONE_NEWPID]
      = set [CLONE_NEWUTS, CLONE_NEWPID, CLONE_NEWNS]"
    by auto
  have h2: "set [CLONE_NEWPID, CLONE_NEWNS, CLONE_NEWUTS, CLONE_NEWPID]
      = {CLONE_NEWUTS, CLONE_NEWPID, CLONE_NEWNS}"
    by auto
  note t = namespace_flags_combine_by_union
      [where ks = "[CLONE_NEWPID, CLONE_NEWNS, CLONE_NEWUTS, CLONE_NEWPID]"
        and ks' = "[CLONE_NEWUTS, CLONE_NEWPID, CLONE_NEWNS]"
        and k = CLONE_NEWPID and k' = CLONE_NEWNS and env = 0 and clazz = 0 and s =
           "\<lparr>caller_ns = \<lparr>uts_ns = 0, pid_ns = 0, mnt_ns = 0\<rparr>,
            proc_table = [(1, \<lparr>uts_ns = 0, pid_ns = 0, mnt_ns = 0\<rparr>)],
            hostname = ''host'', mounts = [''/''], syscalls = []\<rparr>"]
  have e1: "or_flags [CLONE_NEWPID, CLONE_NEWNS, CLONE_NEWUTS, CLONE_NEWPID]
      = or_flags [CLONE_NEWUTS, CLONE_NEWPID, CLONE_NEWNS]"
    using t h1 by blast
  have e2: "or_flags [CLONE_NEWPID, CLONE_NEWNS, CLONE_NEWUTS, CLONE_NEWPID]
      = fst (Java_com_toycontainer_Container_createNamespacedProcess 0 0
           \<lparr>caller_ns = \<lparr>uts_ns = 0, pid_ns = 0, mnt_ns = 0\<rparr>,
            proc_table = [(1, \<lparr>uts_ns = 0, pid_ns = 0, mnt_ns = 0\<rparr>)],
            hostname = ''host'', mounts = [''/''], syscalls = []\<rparr>)"
    using t h2 by blast
  have v: "or_flags [CLONE_NEWUTS, CLONE_NEWPID, CLONE_NEWNS] = 0x24020000"
    by (simp add: flags_value)
  from h1 h2 e1 e2 v show ?thesis
    by (simp only: simp_thms)
qed

section \<open>Effects\<close>

text \<open>
  Claim C2. A call has no side effect: the ambient state after the call is the state
  before it, so the caller's namespaces, the process table, the host name and the
  mounts are unchanged and no system call is issued.
\<close>

theorem createNamespacedProcess_no_side_effect:
  "snd (Java_com_toycontainer_Container_createNamespacedProcess env clazz s) = s
   \<and> caller_ns (snd (Java_com_toycontainer_Container_createNamespacedProcess env clazz s)) = caller_ns s
   \<and> proc_table (snd (Java_com_toycontainer_Container_createNamespacedProcess env clazz s)) = proc_table s
   \<and> hostname (snd (Java_com_toycontainer_Container_createNamespacedProcess env clazz s)) = hostname s
   \<and> mounts (snd (Java_com_toycontainer_Container_createNamespacedProcess env clazz s)) = mounts s"
  by (simp add: Java_com_toycontainer_Container_createNamespacedProcess_def)

text \<open>
  Claim C5. The computed mask is handed to the caller and used for nothing else: the
  value returned is the mask, and the log of system calls is the same after the call
  as before, so the mask is passed to no \<open>clone\<close> call (nor to any other).
\<close>

theorem createNamespacedProcess_only_returns_flags:
  "fst (Java_com_toycontainer_Container_createNamespacedProcess env clazz s)
     = CLONE_NEWUTS OR CLONE_NEWPID OR CLONE_NEWNS
   \<and> syscalls (snd (Java_com_toycontainer_Container_createNamespacedProcess env clazz s)) = syscalls s
   \<and> drop (length (syscalls s))
        (syscalls (snd (Java_com_toycontainer_Container_createNamespacedProcess env clazz s))) = []"
  by (simp add: Java_com_toycontainer_Container_createNamespacedProcess_def)

end
